theory Spec2Isabelle
  imports Complex_Main "HOL-Library.AList"
begin

section \<open>Session records and the sessions directory\<close>

text \<open>
  The session manager of the command-line assistant (\<^verbatim>\<open>src/cli/session-manager.ts\<close>) and
  the entry point that drives it (\<^verbatim>\<open>executeQuery\<close>, \<^verbatim>\<open>handleSessionCommands\<close>
  and \<^verbatim>\<open>main\<close>) are embedded as functions over an explicit state. JavaScript numbers
  that hold counts and millisecond timestamps are integers here, and the cost (a double
  in the source) is an exact rational. Dates are milliseconds since the epoch.
\<close>

datatype SessionType = Global | Shell | Named

record SessionMetadata =
  id' :: string
  name :: string
  type :: SessionType
  sdkSessionId :: "string option"
  created :: int
  lastUsed :: int
  messageCount :: int
  totalTokens :: int
  totalCost :: rat
  powerShellPID :: "int option option"
  systemPrompt :: "string option"
  allowedTools :: "string list option"
  active :: bool

text \<open>
  A file of the sessions directory holds either the JSON text that \<^verbatim>\<open>saveSession\<close> wrote
  for a record, or anything else, on which \<^verbatim>\<open>JSON.parse\<close> (or the assignment of the two
  dates) throws. The directory is an association list from file name to content, in the
  order \<^verbatim>\<open>readdir\<close> reports; \<open>denied\<close> lists the paths on which a write or a removal fails
  for a reason other than absence. Session names are plain file names: the directory
  prefix that \<^verbatim>\<open>path.join\<close> adds is the same for every path and is left out.
\<close>

datatype file_content = Unparsable | SessionJson SessionMetadata

datatype fs_error = ENOENT | EACCES

record sessions_dir =
  files :: "(string \<times> file_content) list"
  denied :: "string list"

definition readFile :: "string \<Rightarrow> sessions_dir \<Rightarrow> fs_error + file_content" where
  "readFile p st = (case map_of (files st) p of None \<Rightarrow> Inl ENOENT | Some c \<Rightarrow> Inr c)"

definition writeFile :: "string \<Rightarrow> file_content \<Rightarrow> sessions_dir \<Rightarrow> fs_error + sessions_dir" where
  "writeFile p c st =
     (if p \<in> set (denied st) then Inl EACCES
      else Inr (st\<lparr>files := AList.update p c (files st)\<rparr>))"

definition unlink :: "string \<Rightarrow> sessions_dir \<Rightarrow> fs_error + sessions_dir" where
  "unlink p st =
     (if p \<notin> set (map fst (files st)) then Inl ENOENT
      else if p \<in> set (denied st) then Inl EACCES
      else Inr (st\<lparr>files := AList.delete p (files st)\<rparr>))"

definition readdir :: "sessions_dir \<Rightarrow> string list" where
  "readdir st = map fst (files st)"

text \<open>The state of the \<^verbatim>\<open>SessionManager\<close> object: its two private fields.\<close>

record SessionManager =
  activeSession :: "SessionMetadata option"
  lastFailedQuestion :: "string option"

definition newSessionManager :: SessionManager where
  "newSessionManager = \<lparr>activeSession = None, lastFailedQuestion = None\<rparr>"

text \<open>JavaScript truthiness of an optional string: \<^verbatim>\<open>undefined\<close> and \<^verbatim>\<open>''\<close> are falsy.\<close>

definition truthy :: "string option \<Rightarrow> bool" where
  "truthy v = (case v of None \<Rightarrow> False | Some x \<Rightarrow> x \<noteq> [])"

section \<open>parseInt\<close>

text \<open>
  \<^verbatim>\<open>parseInt(string)\<close> with no radix, as ECMAScript defines it, on ASCII strings: leading
  white space is dropped, one sign is read, a \<^verbatim>\<open>0x\<close> prefix selects radix 16 (radix 10
  otherwise), and the longest run of digits of that radix is the value. \<open>None\<close> is NaN.
\<close>

definition isWhiteSpace :: "char \<Rightarrow> bool" where
  "isWhiteSpace c = (c \<in> set [CHR 0x09, CHR 0x0A, CHR 0x0B, CHR 0x0C, CHR 0x0D, CHR 0x20])"

definition digitValue :: "char \<Rightarrow> nat option" where
  "digitValue c =
     (let n = (of_char c :: nat) in
      if 48 \<le> n \<and> n \<le> 57 then Some (n - 48)
      else if 97 \<le> n \<and> n \<le> 122 then Some (n - 87)
      else if 65 \<le> n \<and> n \<le> 90 then Some (n - 55)
      else None)"

definition isRadixDigit :: "nat \<Rightarrow> char \<Rightarrow> bool" where
  "isRadixDigit R c = (case digitValue c of None \<Rightarrow> False | Some d \<Rightarrow> d < R)"

definition radixValue :: "nat \<Rightarrow> string \<Rightarrow> nat" where
  "radixValue R Z = foldl (\<lambda>a c. a * R + (case digitValue c of None \<Rightarrow> 0 | Some d \<Rightarrow> d)) 0 Z"

definition parseInt :: "string \<Rightarrow> int option" where
  "parseInt inputString =
     (let S = dropWhile isWhiteSpace inputString;
          sign = (if S \<noteq> [] \<and> hd S = CHR ''-'' then - 1 else (1::int));
          S1 = (if S \<noteq> [] \<and> (hd S = CHR ''+'' \<or> hd S = CHR ''-'') then tl S else S);
          hex = (take 2 S1 = ''0x'' \<or> take 2 S1 = ''0X'');
          R = (if hex then 16 else 10);
          S2 = (if hex then drop 2 S1 else S1);
          Z = takeWhile (isRadixDigit R) S2
      in if Z = [] then None else Some (sign * int (radixValue R Z)))"

section \<open>The session manager\<close>

definition getSessionPath :: "string \<Rightarrow> string" where
  "getSessionPath n = n @ ''.json''"

definition loadSessionFromDisk :: "string \<Rightarrow> sessions_dir \<Rightarrow> SessionMetadata option" where
  "loadSessionFromDisk n st =
     (case readFile (getSessionPath n) st of
        Inl e \<Rightarrow> None
      | Inr Unparsable \<Rightarrow> None
      | Inr (SessionJson s) \<Rightarrow> Some s)"

definition saveSession :: "SessionMetadata \<Rightarrow> sessions_dir \<Rightarrow> fs_error + sessions_dir" where
  "saveSession s st = writeFile (getSessionPath (name s)) (SessionJson s) st"

text \<open>
  What \<^verbatim>\<open>createSession\<close> takes from its environment: the identifier that \<^verbatim>\<open>randomUUID()\<close>
  returns and the two readings of the clock.
\<close>

record creation_env =
  randomUUID :: string
  created_at :: int
  lastUsed_at :: int

definition createSession ::
  "string \<Rightarrow> SessionType \<Rightarrow> string option \<Rightarrow> creation_env \<Rightarrow> sessions_dir
     \<Rightarrow> fs_error + (SessionMetadata \<times> sessions_dir)" where
  "createSession n t pid env st =
     (let s = \<lparr>id' = randomUUID env, name = n, type = t, sdkSessionId = None,
                created = created_at env, lastUsed = lastUsed_at env,
                messageCount = 0, totalTokens = 0, totalCost = 0,
                powerShellPID = (case pid of None \<Rightarrow> None
                                 | Some p \<Rightarrow> if p \<noteq> [] then Some (parseInt p) else None),
                systemPrompt = None, allowedTools = None, active = True\<rparr>
      in case saveSession s st of Inl e \<Rightarrow> Inl e | Inr st' \<Rightarrow> Inr (s, st'))"

definition getGlobalSession ::
  "creation_env \<Rightarrow> sessions_dir \<Rightarrow> fs_error + (SessionMetadata \<times> sessions_dir)" where
  "getGlobalSession env st =
     (case loadSessionFromDisk ''global'' st of
        Some s \<Rightarrow> Inr (s, st)
      | None \<Rightarrow> createSession ''global'' Global None env st)"

definition getShellSession ::
  "string \<Rightarrow> creation_env \<Rightarrow> sessions_dir \<Rightarrow> fs_error + (SessionMetadata \<times> sessions_dir)" where
  "getShellSession pid env st =
     (let n = ''shell-'' @ pid in
      case loadSessionFromDisk n st of
        Some s \<Rightarrow> Inr (s, st)
      | None \<Rightarrow> createSession n Shell (Some pid) env st)"

definition getNamedSession ::
  "string \<Rightarrow> bool \<Rightarrow> creation_env \<Rightarrow> sessions_dir
     \<Rightarrow> fs_error + (SessionMetadata \<times> sessions_dir)" where
  "getNamedSession n force env st =
     (if force then createSession n Named None env st
      else case loadSessionFromDisk n st of
             Some s \<Rightarrow> Inr (s, st)
           | None \<Rightarrow> createSession n Named None env st)"

datatype selection_type = AutoSel | GlobalSel | ShellSel | NamedSel

record SessionSelectionOptions =
  sessionName :: "string option"
  shellPID :: "string option"
  selType :: selection_type
  forceNew :: bool

definition getActiveSession ::
  "SessionSelectionOptions \<Rightarrow> creation_env \<Rightarrow> SessionManager \<Rightarrow> sessions_dir
     \<Rightarrow> fs_error + (SessionMetadata \<times> SessionManager \<times> sessions_dir)" where
  "getActiveSession options env mgr st =
     (case (if truthy (sessionName options)
            then getNamedSession (the (sessionName options)) (forceNew options) env st
            else if selType options = ShellSel \<and> truthy (shellPID options)
            then getShellSession (the (shellPID options)) env st
            else if selType options = NamedSel \<and> truthy (sessionName options)
            then getNamedSession (the (sessionName options)) (forceNew options) env st
            else getGlobalSession env st) of
        Inl e \<Rightarrow> Inl e
      | Inr (s, st') \<Rightarrow> Inr (s, mgr\<lparr>activeSession := Some s\<rparr>, st'))"

definition getCurrentSession :: "SessionManager \<Rightarrow> SessionMetadata option" where
  "getCurrentSession mgr = activeSession mgr"

text \<open>
  \<^verbatim>\<open>String.prototype.endsWith\<close>, and \<^verbatim>\<open>String.prototype.replace\<close> with a string
  pattern, which replaces the first occurrence only.
\<close>

definition endsWith :: "string \<Rightarrow> string \<Rightarrow> bool" where
  "endsWith s suf = (length suf \<le> length s \<and> drop (length s - length suf) s = suf)"

fun replaceFirst :: "string \<Rightarrow> string \<Rightarrow> string \<Rightarrow> string" where
  "replaceFirst pat rep [] = (if pat = [] then rep else [])"
| "replaceFirst pat rep (c # cs) =
     (if take (length pat) (c # cs) = pat then rep @ drop (length pat) (c # cs)
      else c # replaceFirst pat rep cs)"

text \<open>
  \<^verbatim>\<open>listAllSessions\<close>: the loop over the directory entries, then the sort. The comparator
  \<^verbatim>\<open>b.lastUsed - a.lastUsed\<close> with the stable \<^verbatim>\<open>Array.prototype.sort\<close> is a stable sort
  on the negated timestamp. A directory that does not exist yet is the empty list of
  files, for which the loop returns the empty list that the \<^verbatim>\<open>catch\<close> returns.
\<close>

definition sessionOfFile :: "sessions_dir \<Rightarrow> string \<Rightarrow> SessionMetadata list" where
  "sessionOfFile st file =
     (if endsWith file ''.json''
      then (case loadSessionFromDisk (replaceFirst ''.json'' [] file) st of
              Some s \<Rightarrow> [s]
            | None \<Rightarrow> [])
      else [])"

definition listAllSessions :: "sessions_dir \<Rightarrow> SessionMetadata list" where
  "listAllSessions st =
     sort_key (\<lambda>s. - lastUsed s) (concat (map (sessionOfFile st) (readdir st)))"

definition deleteSession ::
  "string \<Rightarrow> SessionManager \<Rightarrow> sessions_dir \<Rightarrow> bool \<times> SessionManager \<times> sessions_dir" where
  "deleteSession n mgr st =
     (case unlink (getSessionPath n) st of
        Inl e \<Rightarrow> (False, mgr, st)
      | Inr st' \<Rightarrow>
          (True,
           (case activeSession mgr of
              Some a \<Rightarrow> if name a = n then mgr\<lparr>activeSession := None\<rparr> else mgr
            | None \<Rightarrow> mgr),
           st'))"

text \<open>
  The part of the configuration that the sweep reads (\<^verbatim>\<open>UserConfig.sessions\<close>), taken
  as loaded. The days since the last use are the quotient of the source, not rounded
  down, and exact here.
\<close>

record sessions_config =
  autoCleanup :: bool
  shellSessionExpiry :: string
  namedSessionExpiry :: string

definition daysSinceLastUse :: "int \<Rightarrow> SessionMetadata \<Rightarrow> rat" where
  "daysSinceLastUse now s = of_int (now - lastUsed s) / (1000 * 60 * 60 * 24)"

text \<open>A comparison with NaN is false.\<close>

definition exceeds :: "rat \<Rightarrow> int option \<Rightarrow> bool" where
  "exceeds d expiryDays = (case expiryDays of None \<Rightarrow> False | Some e \<Rightarrow> d > of_int e)"

definition shouldDelete :: "sessions_config \<Rightarrow> int \<Rightarrow> SessionMetadata \<Rightarrow> bool" where
  "shouldDelete config now s =
     (if type s = Shell then exceeds (daysSinceLastUse now s) (parseInt (shellSessionExpiry config))
      else if type s = Named then exceeds (daysSinceLastUse now s) (parseInt (namedSessionExpiry config))
      else False)"

fun cleanupLoop ::
  "sessions_config \<Rightarrow> int \<Rightarrow> SessionMetadata list \<Rightarrow> nat \<times> SessionManager \<times> sessions_dir
     \<Rightarrow> nat \<times> SessionManager \<times> sessions_dir" where
  "cleanupLoop config now [] acc = acc"
| "cleanupLoop config now (s # rest) (cleanedCount, mgr, st) =
     (if shouldDelete config now s
      then (case deleteSession (name s) mgr st of
              (deleted, mgr', st') \<Rightarrow>
                cleanupLoop config now rest
                  (if deleted then cleanedCount + 1 else cleanedCount, mgr', st'))
      else cleanupLoop config now rest (cleanedCount, mgr, st))"

definition cleanupExpiredSessions ::
  "sessions_config \<Rightarrow> int \<Rightarrow> SessionManager \<Rightarrow> sessions_dir
     \<Rightarrow> nat \<times> SessionManager \<times> sessions_dir" where
  "cleanupExpiredSessions config now mgr st =
     (if \<not> autoCleanup config then (0, mgr, st)
      else cleanupLoop config now (listAllSessions st) (0, mgr, st))"

text \<open>
  The retry cache. The getter hands back the manager together with the remembered text,
  so that what a call leaves behind can be stated.
\<close>

definition setLastFailedQuestion :: "string \<Rightarrow> SessionManager \<Rightarrow> SessionManager" where
  "setLastFailedQuestion q mgr = mgr\<lparr>lastFailedQuestion := Some q\<rparr>"

definition getLastFailedQuestion :: "SessionManager \<Rightarrow> string option \<times> SessionManager" where
  "getLastFailedQuestion mgr = (lastFailedQuestion mgr, mgr)"

section \<open>The command-line entry point\<close>

text \<open>
  The options that \<^verbatim>\<open>parseArgs\<close> produces, as far as session handling reads them. The
  flags that only select the prompt, the permission mode or the verbosity of the output
  are left out.
\<close>

record CLIOptions =
  question :: "string option"
  session :: "string option"
  newSession :: "string option"
  noHistory :: bool
  listSessions :: bool
  sessionInfo :: bool
  clear :: bool
  clearAll :: bool
  exportFile :: "string option"
  retry :: bool
  helpFlag :: bool
  versionFlag :: bool
  configShow :: bool
  configReset :: bool
  usePrompt :: "string option"
  setDefaultPrompt :: "string option"
  allowTools :: "string option"

record CLIResult =
  success :: bool
  exitCode :: int
  message :: "string option"
  error :: "string option"

text \<open>
  The events that the query engine streams back. A stream is the list of messages it
  yields and, when the iteration throws after them, the message of the error.
\<close>

datatype content_block = TextBlock string | OtherBlock

record usage =
  input_tokens :: "int option"
  output_tokens :: "int option"

datatype sdk_message =
    SystemInit string
  | AssistantMsg "content_block list"
  | ResultMsg int "usage option" bool
  | OtherMsg

record sdk_stream =
  messages :: "sdk_message list"
  thrown :: "string option"

record sdk_request =
  prompt :: string
  resume :: "string option"

record query_env =
  envShellPID :: "string option"
  creation :: creation_env
  query :: "sdk_request \<Rightarrow> sdk_stream"
  touched_at :: int

text \<open>\<^verbatim>\<open>a || b\<close> on optional strings, and \<^verbatim>\<open>n || 0\<close> on an optional number.\<close>

definition orElse :: "string option \<Rightarrow> string option \<Rightarrow> string option" where
  "orElse a b = (if truthy a then a else b)"

definition orZero :: "int option \<Rightarrow> int" where
  "orZero n = (case n of None \<Rightarrow> 0 | Some k \<Rightarrow> k)"

definition blockText :: "content_block \<Rightarrow> string" where
  "blockText b = (case b of TextBlock t \<Rightarrow> t | OtherBlock \<Rightarrow> [])"

text \<open>The body of the \<^verbatim>\<open>for await\<close> loop of \<^verbatim>\<open>executeQuery\<close>, on the session object,
  the response text and the error flag.\<close>

definition processMessage ::
  "SessionMetadata \<times> string \<times> bool \<Rightarrow> sdk_message \<Rightarrow> SessionMetadata \<times> string \<times> bool" where
  "processMessage acc m =
     (case acc of (s, responseText, hadError) \<Rightarrow>
        (case m of
           SystemInit sid \<Rightarrow> (s\<lparr>sdkSessionId := Some sid\<rparr>, responseText, hadError)
         | AssistantMsg blocks \<Rightarrow> (s, responseText @ concat (map blockText blocks), hadError)
         | ResultMsg num_turns u is_error \<Rightarrow>
             (let s1 = s\<lparr>messageCount := messageCount s + num_turns\<rparr>;
                  s2 = (case u of
                          None \<Rightarrow> s1
                        | Some us \<Rightarrow>
                            (let inputTokens = orZero (input_tokens us);
                                 outputTokens = orZero (output_tokens us);
                                 cost = (of_int inputTokens / 1000) * (3 / 1000)
                                        + (of_int outputTokens / 1000) * (15 / 1000)
                             in s1\<lparr>totalTokens := totalTokens s1 + (inputTokens + outputTokens),
                                    totalCost := totalCost s1 + cost\<rparr>))
              in (s2, responseText, is_error))
         | OtherMsg \<Rightarrow> (s, responseText, hadError)))"

definition fsErrorMessage :: "fs_error \<Rightarrow> string" where
  "fsErrorMessage e = (case e of ENOENT \<Rightarrow> ''ENOENT'' | EACCES \<Rightarrow> ''EACCES'')"

definition failed :: "string \<Rightarrow> CLIResult" where
  "failed msg = \<lparr>success = False, exitCode = 1, message = None, error = Some msg\<rparr>"

text \<open>
  The selection options and the request that \<^verbatim>\<open>executeQuery\<close> builds: the session name
  is \<^verbatim>\<open>options.session || options.newSession\<close>, and the resume token is passed unless
  \<^verbatim>\<open>--no-history\<close> is given.
\<close>

definition selectionOptions :: "CLIOptions \<Rightarrow> query_env \<Rightarrow> SessionSelectionOptions" where
  "selectionOptions options env =
     \<lparr>sessionName = orElse (session options) (newSession options),
      shellPID = envShellPID env,
      selType = (if truthy (newSession options) then NamedSel else AutoSel),
      forceNew = truthy (newSession options)\<rparr>"

definition sdkRequest :: "string \<Rightarrow> CLIOptions \<Rightarrow> SessionMetadata \<Rightarrow> sdk_request" where
  "sdkRequest q options s =
     \<lparr>prompt = q,
      resume = (if \<not> noHistory options \<and> truthy (sdkSessionId s) then sdkSessionId s else None)\<rparr>"

text \<open>
  \<^verbatim>\<open>executeQuery\<close>. The manager's \<open>activeSession\<close> and the local \<^verbatim>\<open>session\<close> are the same
  object in the source, so every mutation of the session is written through to the
  pointer. The result comes with the requests submitted to the query engine. The
  configuration is taken as loaded; the query engine and the clock are parameters.
\<close>

definition executeQuery ::
  "string \<Rightarrow> CLIOptions \<Rightarrow> query_env \<Rightarrow> SessionManager \<Rightarrow> sessions_dir
     \<Rightarrow> CLIResult \<times> sdk_request list \<times> SessionManager \<times> sessions_dir" where
  "executeQuery q options env mgr st =
     (case getActiveSession (selectionOptions options env) (creation env) mgr st of
        Inl e \<Rightarrow> (failed (fsErrorMessage e), [], setLastFailedQuestion q mgr, st)
      | Inr (s0, mgr1, st1) \<Rightarrow>
          (let req = sdkRequest q options s0;
               result = query env req
           in case foldl processMessage (s0, [], False) (messages result) of
                (s1, responseText, hadError) \<Rightarrow>
                  (case thrown result of
                     Some msg \<Rightarrow>
                       (failed msg, [req],
                        setLastFailedQuestion q (mgr1\<lparr>activeSession := Some s1\<rparr>), st1)
                   | None \<Rightarrow>
                       (let s2 = (if \<not> noHistory options
                                  then s1\<lparr>lastUsed := touched_at env\<rparr> else s1);
                            mgr2 = mgr1\<lparr>activeSession := Some s2\<rparr>
                        in case (if \<not> noHistory options then saveSession s2 st1 else Inr st1) of
                             Inl e \<Rightarrow>
                               (failed (fsErrorMessage e), [req], setLastFailedQuestion q mgr2, st1)
                           | Inr st2 \<Rightarrow>
                               (\<lparr>success = \<not> hadError,
                                 exitCode = (if hadError then 1 else 0),
                                 message = Some responseText, error = None\<rparr>,
                                [req],
                                (if hadError then setLastFailedQuestion q mgr2 else mgr2),
                                st2)))))"

text \<open>
  \<^verbatim>\<open>handleSessionCommands\<close>, with the loop of \<^verbatim>\<open>--clear-all\<close>. The export writes a file
  outside the sessions directory; whether that write succeeds is a parameter.
\<close>

fun clearAllLoop ::
  "SessionMetadata list \<Rightarrow> nat \<times> SessionManager \<times> sessions_dir
     \<Rightarrow> nat \<times> SessionManager \<times> sessions_dir" where
  "clearAllLoop [] acc = acc"
| "clearAllLoop (s # rest) (cleared, mgr, st) =
     (case deleteSession (name s) mgr st of
        (deleted, mgr', st') \<Rightarrow>
          clearAllLoop rest (if deleted then cleared + 1 else cleared, mgr', st'))"

definition currentName :: "SessionManager \<Rightarrow> string option" where
  "currentName mgr = (case getCurrentSession mgr of None \<Rightarrow> None | Some a \<Rightarrow> Some (name a))"

definition handleSessionCommands ::
  "CLIOptions \<Rightarrow> bool \<Rightarrow> SessionManager \<Rightarrow> sessions_dir
     \<Rightarrow> int \<times> SessionManager \<times> sessions_dir" where
  "handleSessionCommands options exportWrites mgr st =
     (if listSessions options then (0, mgr, st)
      else if sessionInfo options then (0, mgr, st)
      else if clear options then
        (case orElse (orElse (session options) (currentName mgr)) (Some ''global'') of
           None \<Rightarrow> (1, mgr, st)
         | Some n \<Rightarrow>
             (case deleteSession n mgr st of
                (deleted, mgr', st') \<Rightarrow> (if deleted then 0 else 1, mgr', st')))
      else if clearAll options then
        (case clearAllLoop (listAllSessions st) (0, mgr, st) of
           (cleared, mgr', st') \<Rightarrow> (0, mgr', st'))
      else if truthy (exportFile options) then
        (case orElse (orElse (session options) (currentName mgr)) (Some ''global'') of
           None \<Rightarrow> (1, mgr, st)
         | Some n \<Rightarrow>
             (case loadSessionFromDisk n st of
                None \<Rightarrow> (1, mgr, st)
              | Some s \<Rightarrow> (if exportWrites then 0 else 1, mgr, st)))
      else (0, mgr, st))"

text \<open>
  \<^verbatim>\<open>main\<close>, from the parsed options to the exit of the process: the exit code, the
  line that the retry branch writes to the error stream, the requests submitted to the
  query engine, and the final state. The configuration commands belong to the
  configuration store; their exit code is a parameter.
\<close>

record main_env =
  sessionsConfig :: sessions_config
  sweep_at :: int
  configExit :: int
  exportWrites :: bool
  queryEnv :: query_env

record process_exit =
  status :: int
  stderr :: "string list"
  requests :: "sdk_request list"
  manager :: SessionManager
  directory :: sessions_dir

definition main :: "CLIOptions \<Rightarrow> main_env \<Rightarrow> SessionManager \<Rightarrow> sessions_dir \<Rightarrow> process_exit" where
  "main options env mgr st =
     (if helpFlag options then
        \<lparr>status = 0, stderr = [], requests = [], manager = mgr, directory = st\<rparr>
      else if versionFlag options then
        \<lparr>status = 0, stderr = [], requests = [], manager = mgr, directory = st\<rparr>
      else
        (case cleanupExpiredSessions (sessionsConfig env) (sweep_at env) mgr st of
           (cleaned, mgr1, st1) \<Rightarrow>
             if configShow options \<or> configReset options \<or> truthy (usePrompt options)
                \<or> truthy (setDefaultPrompt options) \<or> truthy (allowTools options) then
               \<lparr>status = configExit env, stderr = [], requests = [],
                manager = mgr1, directory = st1\<rparr>
             else if listSessions options \<or> sessionInfo options \<or> clear options
                     \<or> clearAll options \<or> truthy (exportFile options) then
               (case handleSessionCommands options (exportWrites env) mgr1 st1 of
                  (code, mgr2, st2) \<Rightarrow>
                    \<lparr>status = code, stderr = [], requests = [],
                     manager = mgr2, directory = st2\<rparr>)
             else
               (case (if retry options then getLastFailedQuestion mgr1
                      else (question options, mgr1)) of
                  (q, mgr2) \<Rightarrow>
                    if retry options \<and> \<not> truthy q then
                      \<lparr>status = 1, stderr = [''No failed question to retry''], requests = [],
                       manager = mgr2, directory = st1\<rparr>
                    else if truthy q then
                      (case executeQuery (the q) (options\<lparr>question := q\<rparr>) (queryEnv env) mgr2 st1 of
                         (res, reqs, mgr3, st3) \<Rightarrow>
                           \<lparr>status = exitCode res, stderr = [], requests = reqs,
                            manager = mgr3, directory = st3\<rparr>)
                    else
                      \<lparr>status = 1, stderr = [], requests = [],
                       manager = mgr2, directory = st1\<rparr>)))"

section \<open>Well-formed inputs\<close>


text \<open>
  A directory is consistent when no two entries share a file name and every record is
  stored under its own name, as \<^verbatim>\<open>saveSession\<close> stores it. A file name is listable when
  \<^verbatim>\<open>listAllSessions\<close> recovers from it the name under which the file is read again. A
  directory is well formed when it is consistent and every file name is listable.
\<close>

definition storedUnderOwnName :: "string \<times> file_content \<Rightarrow> bool" where
  "storedUnderOwnName e =
     (case e of
        (f, SessionJson s) \<Rightarrow> f = getSessionPath (name s)
      | (f, Unparsable) \<Rightarrow> True)"

definition consistent :: "sessions_dir \<Rightarrow> bool" where
  "consistent st = (distinct (map fst (files st)) \<and> list_all storedUnderOwnName (files st))"

definition listable :: "string \<Rightarrow> bool" where
  "listable file =
     (endsWith file ''.json'' \<longrightarrow> getSessionPath (replaceFirst ''.json'' [] file) = file)"

definition wellFormed :: "sessions_dir \<Rightarrow> bool" where
  "wellFormed st = (consistent st \<and> list_all (\<lambda>e. listable (fst e)) (files st))"

text \<open>The records of a directory, in the order of its entries.\<close>

definition recordOf :: "string \<times> file_content \<Rightarrow> SessionMetadata list" where
  "recordOf e = (case e of (f, SessionJson s) \<Rightarrow> [s] | (f, Unparsable) \<Rightarrow> [])"

text \<open>
  An entry that the sweep is to remove: a record that \<^verbatim>\<open>cleanupExpiredSessions\<close> marks
  for deletion and whose removal is not refused.
\<close>

definition expiredEntry ::
  "sessions_config \<Rightarrow> int \<Rightarrow> sessions_dir \<Rightarrow> string \<times> file_content \<Rightarrow> bool" where
  "expiredEntry config now st e =
     (case e of
        (f, SessionJson s) \<Rightarrow> shouldDelete config now s \<and> f \<notin> set (denied st)
      | (f, Unparsable) \<Rightarrow> False)"



section \<open>Example inputs\<close>

definition noOptions :: CLIOptions where
  "noOptions =
     \<lparr>question = None, session = None, newSession = None, noHistory = False,
      listSessions = False, sessionInfo = False, clear = False, clearAll = False,
      exportFile = None, retry = False, helpFlag = False, versionFlag = False,
      configShow = False, configReset = False, usePrompt = None,
      setDefaultPrompt = None, allowTools = None\<rparr>"

definition defaultSessions :: sessions_config where
  "defaultSessions =
     \<lparr>autoCleanup = True, shellSessionExpiry = ''7d'', namedSessionExpiry = ''30d''\<rparr>"

definition emptyDir :: sessions_dir where
  "emptyDir = \<lparr>files = [], denied = []\<rparr>"

definition env1 :: creation_env where
  "env1 = \<lparr>randomUUID = ''uuid-1'', created_at = 1000, lastUsed_at = 1000\<rparr>"


definition silentQuery :: "sdk_request \<Rightarrow> sdk_stream" where
  "silentQuery r = \<lparr>messages = [], thrown = None\<rparr>"

definition quietEnv :: main_env where
  "quietEnv =
     \<lparr>sessionsConfig = defaultSessions, sweep_at = 5000, configExit = 0, exportWrites = True,
      queryEnv = \<lparr>envShellPID = Some ''4242'', creation = env1, query = silentQuery,
                  touched_at = 6000\<rparr>\<rparr>"

definition workSession :: SessionMetadata where
  "workSession =
     \<lparr>id' = ''uuid-w'', name = ''work'', type = Named, sdkSessionId = Some ''sdk-1'',
      created = 100, lastUsed = 200, messageCount = 3, totalTokens = 50, totalCost = 0,
      powerShellPID = None, systemPrompt = None, allowedTools = None, active = True\<rparr>"

definition workDir :: sessions_dir where
  "workDir = \<lparr>files = [(''work.json'', SessionJson workSession)], denied = []\<rparr>"

definition lockedDir :: sessions_dir where
  "lockedDir = \<lparr>files = [(''work.json'', SessionJson workSession)], denied = [''work.json'']\<rparr>"


definition globalSession :: SessionMetadata where
  "globalSession =
     \<lparr>id' = ''uuid-g'', name = ''global'', type = Global, sdkSessionId = None,
      created = 100, lastUsed = 200, messageCount = 0, totalTokens = 0, totalCost = 0,
      powerShellPID = None, systemPrompt = None, allowedTools = None, active = True\<rparr>"

definition globalDir :: sessions_dir where
  "globalDir = \<lparr>files = [(''global.json'', SessionJson globalSession)], denied = []\<rparr>"


definition erroredQuery :: "sdk_request \<Rightarrow> sdk_stream" where
  "erroredQuery r =
     \<lparr>messages = [SystemInit ''sdk-9'',
                  ResultMsg 2 (Some \<lparr>input_tokens = Some 10, output_tokens = Some 5\<rparr>) True],
      thrown = None\<rparr>"


definition erroredEnv :: query_env where
  "erroredEnv =
     \<lparr>envShellPID = Some ''4242'', creation = env1, query = erroredQuery, touched_at = 6000\<rparr>"

definition namedGlobal :: SessionMetadata where
  "namedGlobal =
     \<lparr>id' = ''uuid-n'', name = ''global'', type = Named, sdkSessionId = None,
      created = 0, lastUsed = 0, messageCount = 1, totalTokens = 10, totalCost = 0,
      powerShellPID = None, systemPrompt = None, allowedTools = None, active = True\<rparr>"

definition shellOne :: SessionMetadata where
  "shellOne =
     \<lparr>id' = ''uuid-s'', name = ''shell-1'', type = Shell, sdkSessionId = None,
      created = 0, lastUsed = 2851199999, messageCount = 1, totalTokens = 10, totalCost = 0,
      powerShellPID = Some (Some 1), systemPrompt = None, allowedTools = None, active = True\<rparr>"

definition sweepNow :: int where
  "sweepNow = 3456000000"

definition sweepDir :: sessions_dir where
  "sweepDir =
     \<lparr>files = [(''global.json'', SessionJson namedGlobal), (''shell-1.json'', SessionJson shellOne)],
      denied = []\<rparr>"

definition keepDir :: sessions_dir where
  "keepDir =
     \<lparr>files = [(''global.json'', SessionJson globalSession), (''shell-1.json'', SessionJson shellOne),
               (''work.json'', SessionJson (workSession\<lparr>lastUsed := 3455999000\<rparr>))],
      denied = []\<rparr>"

definition oddSession :: SessionMetadata where
  "oddSession =
     \<lparr>id' = ''uuid-o'', name = ''package.json-help'', type = Named, sdkSessionId = None,
      created = 100, lastUsed = 200, messageCount = 1, totalTokens = 10, totalCost = 0,
      powerShellPID = None, systemPrompt = None, allowedTools = None, active = True\<rparr>"

definition oddDir :: sessions_dir where
  "oddDir = \<lparr>files = [(''package.json-help.json'', SessionJson oddSession)], denied = []\<rparr>"




section \<open>The retry cache survives the other operations\<close>

lemma deleteSession_lastFailed:
  "lastFailedQuestion (fst (snd (deleteSession n mgr st))) = lastFailedQuestion mgr"
  by (simp add: deleteSession_def split: sum.splits option.splits)

lemma cleanupLoop_lastFailed:
  "lastFailedQuestion (fst (snd (cleanupLoop config now ss (k, mgr, st)))) = lastFailedQuestion mgr"
proof (induction ss arbitrary: k mgr st)
  case Nil
  then show ?case by simp
next
  case (Cons s ss)
  show ?case
  proof (cases "shouldDelete config now s")
    case True
    obtain d m' st' where del: "deleteSession (name s) mgr st = (d, m', st')"
      by (cases "deleteSession (name s) mgr st") auto
    have "lastFailedQuestion m' = lastFailedQuestion mgr"
      using deleteSession_lastFailed [of "name s" mgr st] del by simp
    with True del Cons.IH show ?thesis by simp
  next
    case False
    with Cons.IH show ?thesis by simp
  qed
qed

lemma cleanupExpiredSessions_lastFailed:
  "lastFailedQuestion (fst (snd (cleanupExpiredSessions config now mgr st))) = lastFailedQuestion mgr"
  by (simp add: cleanupExpiredSessions_def cleanupLoop_lastFailed)

section \<open>Reading back what was written\<close>

lemma load_after_write:
  "writeFile (getSessionPath n) (SessionJson s) st = Inr st' \<Longrightarrow> loadSessionFromDisk n st' = Some s"
  by (auto simp: writeFile_def loadSessionFromDisk_def readFile_def update_conv' split: if_splits)

lemma load_after_unlink:
  "unlink (getSessionPath n) st = Inr st' \<Longrightarrow> loadSessionFromDisk n st' = None"
  by (auto simp: unlink_def loadSessionFromDisk_def readFile_def delete_conv' split: if_splits)


lemma load_after_update:
  "loadSessionFromDisk n (st\<lparr>files := AList.update (getSessionPath n) (SessionJson s) (files st)\<rparr>)
     = Some s"
  by (simp add: loadSessionFromDisk_def readFile_def update_conv')

section \<open>The message loop\<close>

lemma processMessage_frame:
  "name (fst (processMessage acc m)) = name (fst acc)
   \<and> id' (fst (processMessage acc m)) = id' (fst acc)
   \<and> lastUsed (fst (processMessage acc m)) = lastUsed (fst acc)
   \<and> type (fst (processMessage acc m)) = type (fst acc)
   \<and> created (fst (processMessage acc m)) = created (fst acc)"
  by (cases acc) (simp add: processMessage_def Let_def split: sdk_message.splits option.splits)

lemma stream_frame:
  "name (fst (foldl processMessage acc ms)) = name (fst acc)
   \<and> id' (fst (foldl processMessage acc ms)) = id' (fst acc)
   \<and> lastUsed (fst (foldl processMessage acc ms)) = lastUsed (fst acc)
   \<and> type (fst (foldl processMessage acc ms)) = type (fst acc)
   \<and> created (fst (foldl processMessage acc ms)) = created (fst acc)"
  by (induction ms arbitrary: acc) (simp_all add: processMessage_frame)




lemma executeQuery_saved:
  assumes "getActiveSession (selectionOptions options env) (creation env) mgr st = Inr (s0, mgr1, st1)"
    and "\<not> noHistory options"
    and "thrown (query env (sdkRequest q options s0)) = None"
    and "foldl processMessage (s0, [], False) (messages (query env (sdkRequest q options s0)))
           = (s1, responseText, hadError)"
    and "getSessionPath (name s0) \<notin> set (denied st1)"
  shows "executeQuery q options env mgr st =
           (\<lparr>success = \<not> hadError, exitCode = (if hadError then 1 else 0),
             message = Some responseText, error = None\<rparr>,
            [sdkRequest q options s0],
            (if hadError
             then setLastFailedQuestion q (mgr1\<lparr>activeSession := Some (s1\<lparr>lastUsed := touched_at env\<rparr>)\<rparr>)
             else mgr1\<lparr>activeSession := Some (s1\<lparr>lastUsed := touched_at env\<rparr>)\<rparr>),
            st1\<lparr>files := AList.update (getSessionPath (name s0))
                             (SessionJson (s1\<lparr>lastUsed := touched_at env\<rparr>)) (files st1)\<rparr>)"
proof -
  have n: "name s1 = name s0"
    using stream_frame [of "(s0, [], False)" "messages (query env (sdkRequest q options s0))"]
      assms(4) by simp
  show ?thesis
    using assms n
    by (simp add: executeQuery_def Let_def saveSession_def writeFile_def)
qed


section \<open>Listing a well-formed directory\<close>

lemma endsWith_append: "endsWith (n @ suf) suf"
  by (simp add: endsWith_def)

lemma load_lookup:
  "loadSessionFromDisk n st =
     (case map_of (files st) (getSessionPath n) of
        Some (SessionJson s) \<Rightarrow> Some s
      | _ \<Rightarrow> None)"
  by (simp add: loadSessionFromDisk_def readFile_def split: option.splits file_content.splits)

lemma getSessionPath_inj: "getSessionPath a = getSessionPath b \<longleftrightarrow> a = b"
  by (simp add: getSessionPath_def)

lemma sessionOfFile_wf:
  assumes "wellFormed st" and "(f, c) \<in> set (files st)"
  shows "sessionOfFile st f = recordOf (f, c)"
proof -
  have d: "distinct (map fst (files st))" using assms(1) by (simp add: wellFormed_def consistent_def)
  have m: "map_of (files st) f = Some c" using d assms(2) by simp
  have l: "listable f" and o: "storedUnderOwnName (f, c)"
    using assms by (auto simp: wellFormed_def consistent_def list_all_iff)
  show ?thesis
  proof (cases "endsWith f ''.json''")
    case True
    then have p: "getSessionPath (replaceFirst ''.json'' [] f) = f"
      using l by (simp add: listable_def)
    show ?thesis
      using True m p
      by (simp add: sessionOfFile_def load_lookup recordOf_def split: file_content.splits)
  next
    case False
    have "c = Unparsable"
    proof (cases c)
      case Unparsable
      then show ?thesis .
    next
      case (SessionJson s)
      then have "f = getSessionPath (name s)" using o by (simp add: storedUnderOwnName_def)
      then have "endsWith f ''.json''" by (simp add: getSessionPath_def endsWith_def)
      with False show ?thesis by simp
    qed
    with False show ?thesis by (simp add: sessionOfFile_def recordOf_def)
  qed
qed

lemma listAllSessions_wf:
  assumes "wellFormed st"
  shows "listAllSessions st = sort_key (\<lambda>s. - lastUsed s) (concat (map recordOf (files st)))"
proof -
  have "map (sessionOfFile st) (readdir st) = map recordOf (files st)"
    unfolding readdir_def map_map
    by (rule map_cong [OF refl]) (use assms sessionOfFile_wf in \<open>auto simp: comp_def\<close>)
  then show ?thesis by (simp add: listAllSessions_def)
qed

section \<open>The expiry sweep on a well-formed directory\<close>

lemma delete_filter: "AList.delete k xs = filter (\<lambda>e. fst e \<noteq> k) xs"
  by (induction xs) auto

lemma deleteSession_removed:
  assumes "getSessionPath n \<in> fst ` set (files st)" and "getSessionPath n \<notin> set (denied st)"
  shows "fst (deleteSession n mgr st) = True
         \<and> snd (snd (deleteSession n mgr st))
             = st\<lparr>files := filter (\<lambda>e. fst e \<noteq> getSessionPath n) (files st)\<rparr>"
  using assms
  by (auto simp: deleteSession_def unlink_def delete_filter)

lemma deleteSession_refused:
  assumes "getSessionPath n \<notin> fst ` set (files st) \<or> getSessionPath n \<in> set (denied st)"
  shows "deleteSession n mgr st = (False, mgr, st)"
  using assms by (auto simp: deleteSession_def unlink_def)

lemma cleanupLoop_result:
  assumes "distinct (map name ss)"
    and "\<forall>s \<in> set ss. getSessionPath (name s) \<in> fst ` set (files st)"
  shows "fst (cleanupLoop config now ss (k, mgr, st))
           = k + length (filter (\<lambda>s. shouldDelete config now s
                                      \<and> getSessionPath (name s) \<notin> set (denied st)) ss)
         \<and> snd (snd (cleanupLoop config now ss (k, mgr, st)))
           = st\<lparr>files :=
                 filter (\<lambda>e. fst e \<notin> (\<lambda>s. getSessionPath (name s)) `
                                {s \<in> set ss. shouldDelete config now s
                                             \<and> getSessionPath (name s) \<notin> set (denied st)})
                        (files st)\<rparr>"
  using assms
proof (induction ss arbitrary: k mgr st)
  case Nil
  then show ?case by simp
next
  case (Cons s ss)
  let ?p = "getSessionPath (name s)"
  show ?case
  proof (cases "shouldDelete config now s \<and> ?p \<notin> set (denied st)")
    case True
    have inn: "?p \<in> fst ` set (files st)" using Cons.prems(2) by simp
    obtain mgr' where del: "deleteSession (name s) mgr st
        = (True, mgr', st\<lparr>files := filter (\<lambda>e. fst e \<noteq> ?p) (files st)\<rparr>)"
      using deleteSession_removed [OF inn, of mgr] True
      by (cases "deleteSession (name s) mgr st") auto
    let ?st = "st\<lparr>files := filter (\<lambda>e. fst e \<noteq> ?p) (files st)\<rparr>"
    have d: "distinct (map name ss)" using Cons.prems(1) by simp
    have others: "\<forall>s' \<in> set ss. getSessionPath (name s') \<in> fst ` set (files ?st)"
    proof
      fix s' assume a: "s' \<in> set ss"
      have "name s \<notin> name ` set ss" using Cons.prems(1) by simp
      with a have "name s' \<noteq> name s" by (metis imageI)
      then have "getSessionPath (name s') \<noteq> ?p" by (simp add: getSessionPath_inj)
      moreover have "getSessionPath (name s') \<in> fst ` set (files st)"
        using Cons.prems(2) a by simp
      ultimately show "getSessionPath (name s') \<in> fst ` set (files ?st)" by auto
    qed
    have ih: "fst (cleanupLoop config now ss (k + 1, mgr', ?st))
           = k + 1 + length (filter (\<lambda>s. shouldDelete config now s
                                      \<and> getSessionPath (name s) \<notin> set (denied ?st)) ss)
         \<and> snd (snd (cleanupLoop config now ss (k + 1, mgr', ?st)))
           = ?st\<lparr>files :=
                 filter (\<lambda>e. fst e \<notin> (\<lambda>s. getSessionPath (name s)) `
                                {s \<in> set ss. shouldDelete config now s
                                             \<and> getSessionPath (name s) \<notin> set (denied ?st)})
                        (files ?st)\<rparr>"
      by (rule Cons.IH [OF d others])
    have step: "cleanupLoop config now (s # ss) (k, mgr, st)
                  = cleanupLoop config now ss (k + 1, mgr', ?st)"
      using True del by simp
    have fl: "filter (\<lambda>e. fst e \<notin> (\<lambda>s. getSessionPath (name s)) `
                                {s \<in> set ss. shouldDelete config now s
                                             \<and> getSessionPath (name s) \<notin> set (denied st)})
                 (filter (\<lambda>e. fst e \<noteq> ?p) (files st))
            = filter (\<lambda>e. fst e \<notin> (\<lambda>s. getSessionPath (name s)) `
                                {s' \<in> set (s # ss). shouldDelete config now s'
                                             \<and> getSessionPath (name s') \<notin> set (denied st)})
                 (files st)"
      using True by (auto intro!: filter_cong)
    show ?thesis
      unfolding step using ih True fl by simp
  next
    case False
    have step: "cleanupLoop config now (s # ss) (k, mgr, st)
                  = cleanupLoop config now ss (k, mgr, st)"
    proof (cases "shouldDelete config now s")
      case True
      with False have "?p \<in> set (denied st)" by simp
      then have "deleteSession (name s) mgr st = (False, mgr, st)"
        by (simp add: deleteSession_refused)
      with True show ?thesis by simp
    next
      case False
      then show ?thesis by simp
    qed
    have d: "distinct (map name ss)" using Cons.prems(1) by simp
    have others: "\<forall>s' \<in> set ss. getSessionPath (name s') \<in> fst ` set (files st)"
      using Cons.prems(2) by simp
    have st: "{s' \<in> set (s # ss). shouldDelete config now s'
                                   \<and> getSessionPath (name s') \<notin> set (denied st)}
              = {s' \<in> set ss. shouldDelete config now s'
                                   \<and> getSessionPath (name s') \<notin> set (denied st)}"
      using False by auto
    show ?thesis
      unfolding step st using Cons.IH [OF d others, of k mgr] False by simp
  qed
qed

lemma recordOf_simps [simp]:
  "recordOf (f, Unparsable) = []"
  "recordOf (f, SessionJson s) = [s]"
  by (simp_all add: recordOf_def)

lemma storedUnderOwnName_simps [simp]:
  "storedUnderOwnName (f, Unparsable) = True"
  "storedUnderOwnName (f, SessionJson s) = (f = getSessionPath (name s))"
  by (simp_all add: storedUnderOwnName_def)

lemma expiredEntry_simps [simp]:
  "expiredEntry config now st (f, Unparsable) = False"
  "expiredEntry config now st (f, SessionJson s)
     = (shouldDelete config now s \<and> f \<notin> set (denied st))"
  by (simp_all add: expiredEntry_def)

lemma record_mem:
  assumes "list_all storedUnderOwnName xs"
  shows "s \<in> set (concat (map recordOf xs)) \<longleftrightarrow> (getSessionPath (name s), SessionJson s) \<in> set xs"
  using assms
proof (induction xs)
  case Nil
  then show ?case by simp
next
  case (Cons e xs)
  obtain f c where e: "e = (f, c)" by (cases e)
  show ?case using Cons e by (cases c) auto
qed

lemma records_distinct:
  assumes "distinct (map fst xs)" and "list_all storedUnderOwnName xs"
  shows "distinct (map name (concat (map recordOf xs)))"
  using assms
proof (induction xs)
  case Nil
  then show ?case by simp
next
  case (Cons e xs)
  obtain f c where e: "e = (f, c)" by (cases e)
  have ih: "distinct (map name (concat (map recordOf xs)))"
    using Cons by simp
  show ?case
  proof (cases c)
    case Unparsable
    with e ih show ?thesis by simp
  next
    case (SessionJson s)
    have f: "f = getSessionPath (name s)"
      using Cons.prems(2) e SessionJson by simp
    have "name s \<notin> name ` set (concat (map recordOf xs))"
    proof
      assume "name s \<in> name ` set (concat (map recordOf xs))"
      then obtain s' where s': "s' \<in> set (concat (map recordOf xs))" "name s' = name s"
        by (metis imageE)
      have "(getSessionPath (name s'), SessionJson s') \<in> set xs"
        using record_mem [of xs s'] Cons.prems(2) s'(1) by simp
      then have "f \<in> fst ` set xs" using s'(2) f by force
      with Cons.prems(1) e show False by simp
    qed
    with e SessionJson ih show ?thesis by simp
  qed
qed

lemma expired_count:
  assumes "list_all storedUnderOwnName xs"
  shows "length (filter (\<lambda>s. shouldDelete config now s
                              \<and> getSessionPath (name s) \<notin> set (denied st))
                        (concat (map recordOf xs)))
         = length (filter (expiredEntry config now st) xs)"
  using assms
proof (induction xs)
  case Nil
  then show ?case by simp
next
  case (Cons e xs)
  obtain f c where e: "e = (f, c)" by (cases e)
  show ?case using Cons e by (cases c) auto
qed

lemma expired_entry_iff:
  assumes "distinct (map fst xs)" and "list_all storedUnderOwnName xs" and "e \<in> set xs"
  shows "fst e \<in> (\<lambda>s. getSessionPath (name s)) `
                    {s \<in> set (concat (map recordOf xs)).
                       shouldDelete config now s \<and> getSessionPath (name s) \<notin> set (denied st)}
         \<longleftrightarrow> expiredEntry config now st e"
proof -
  obtain f c where e: "e = (f, c)" by (cases e)
  have own: "storedUnderOwnName (f, c)"
    using assms(2,3) e by (auto simp: list_all_iff)
  show ?thesis
  proof
    assume "fst e \<in> (\<lambda>s. getSessionPath (name s)) `
                    {s \<in> set (concat (map recordOf xs)).
                       shouldDelete config now s \<and> getSessionPath (name s) \<notin> set (denied st)}"
    then obtain s where s: "s \<in> set (concat (map recordOf xs))" "shouldDelete config now s"
      "getSessionPath (name s) \<notin> set (denied st)" "f = getSessionPath (name s)"
      using e by auto
    have "(f, SessionJson s) \<in> set xs"
      using record_mem [OF assms(2), of s] s(1,4) by simp
    then have "c = SessionJson s"
      using assms(1,3) e by (metis eq_key_imp_eq_value)
    with s e show "expiredEntry config now st e" by simp
  next
    assume x: "expiredEntry config now st e"
    then obtain s where c: "c = SessionJson s" and d: "shouldDelete config now s"
      "f \<notin> set (denied st)"
      using e by (cases c) auto
    have f: "f = getSessionPath (name s)"
      using own c by simp
    have "s \<in> set (concat (map recordOf xs))"
      using record_mem [OF assms(2), of s] assms(3) e c f by simp
    with d f e show "fst e \<in> (\<lambda>s. getSessionPath (name s)) `
                    {s \<in> set (concat (map recordOf xs)).
                       shouldDelete config now s \<and> getSessionPath (name s) \<notin> set (denied st)}"
      by auto
  qed
qed

lemma sweep_result:
  assumes "wellFormed st" and "autoCleanup config"
  shows "fst (cleanupExpiredSessions config now mgr st)
           = length (filter (expiredEntry config now st) (files st))
         \<and> snd (snd (cleanupExpiredSessions config now mgr st))
           = st\<lparr>files := filter (\<lambda>e. \<not> expiredEntry config now st e) (files st)\<rparr>"
proof -
  let ?recs = "concat (map recordOf (files st))"
  let ?ss = "sort_key (\<lambda>s. - lastUsed s) ?recs"
  let ?P = "\<lambda>s. shouldDelete config now s \<and> getSessionPath (name s) \<notin> set (denied st)"
  have d: "distinct (map fst (files st))" and o: "list_all storedUnderOwnName (files st)"
    using assms(1) by (auto simp: wellFormed_def consistent_def list_all_iff)
  have l: "listAllSessions st = ?ss" using assms(1) by (rule listAllSessions_wf)
  have dn: "distinct (map name ?recs)" using d o by (rule records_distinct)
  have dss: "distinct (map name ?ss)"
    using dn by (simp add: distinct_map)
  have inn: "\<forall>s \<in> set ?ss. getSessionPath (name s) \<in> fst ` set (files st)"
  proof
    fix s assume "s \<in> set ?ss"
    then have "(getSessionPath (name s), SessionJson s) \<in> set (files st)"
      using record_mem [OF o, of s] by simp
    then show "getSessionPath (name s) \<in> fst ` set (files st)" by force
  qed
  have cnt: "length (filter ?P ?ss) = length (filter (expiredEntry config now st) (files st))"
    using expired_count [OF o, of config now st] by (simp add: filter_sort)
  have fl: "filter (\<lambda>e. fst e \<notin> (\<lambda>s. getSessionPath (name s)) ` {s \<in> set ?ss. ?P s}) (files st)
            = filter (\<lambda>e. \<not> expiredEntry config now st e) (files st)"
    by (rule filter_cong [OF refl]) (use expired_entry_iff [OF d o] in simp)
  show ?thesis
    using cleanupLoop_result [OF dss inn, of config now 0 mgr] assms(2) l cnt fl
    by (simp add: cleanupExpiredSessions_def)
qed

lemma exceeds_ms:
  "exceeds (daysSinceLastUse now s) (Some d) \<longleftrightarrow> d * 86400000 < now - lastUsed s"
proof -
  have "(of_int d :: rat) < of_int (now - lastUsed s) / 86400000
          \<longleftrightarrow> (of_int (d * 86400000) :: rat) < of_int (now - lastUsed s)"
    by (simp add: pos_less_divide_eq)
  also have "\<dots> \<longleftrightarrow> d * 86400000 < now - lastUsed s"
    by (simp only: of_int_less_iff)
  finally show ?thesis by (simp add: exceeds_def daysSinceLastUse_def)
qed

lemma shouldDelete_iff:
  "shouldDelete config now s \<longleftrightarrow>
     (type s = Shell \<and> (\<exists>d. parseInt (shellSessionExpiry config) = Some d
                              \<and> d * 86400000 < now - lastUsed s))
     \<or> (type s = Named \<and> (\<exists>d. parseInt (namedSessionExpiry config) = Some d
                                \<and> d * 86400000 < now - lastUsed s))"
proof (cases "type s")
  case Global
  then show ?thesis by (simp add: shouldDelete_def)
next
  case Shell
  then show ?thesis
    by (cases "parseInt (shellSessionExpiry config)")
       (simp_all add: shouldDelete_def exceeds_ms, simp add: exceeds_def)
next
  case Named
  then show ?thesis
    by (cases "parseInt (namedSessionExpiry config)")
       (simp_all add: shouldDelete_def exceeds_ms, simp add: exceeds_def)
qed

section \<open>Keeping the global record\<close>

























section \<open>What the sweep reads from an expiry string\<close>









section \<open>Recording the outcome of an exchange\<close>




section \<open>The expiry sweep\<close>

text \<open>
  C2, as the claim states it, fails on two counts. The shell record below was last used
  seven days and one millisecond before the sweep: its elapsed whole days are 7, which
  does not exceed the threshold 7, yet the sweep deletes it, because the elapsed days
  are compared as a fraction. And the record named \<^verbatim>\<open>global\<close> is deleted, because it is
  of kind Named (as \<^verbatim>\<open>--session global\<close> creates it on an empty store) and the sweep
  spares records by kind, not by name.
\<close>

theorem sweep_by_fraction_and_kind:
  "autoCleanup defaultSessions
   \<and> parseInt (shellSessionExpiry defaultSessions) = Some 7
   \<and> type shellOne = Shell
   \<and> (sweepNow - lastUsed shellOne) div (1000 * 60 * 60 * 24) = 7
   \<and> name namedGlobal = ''global''
   \<and> loadSessionFromDisk ''global'' sweepDir = Some namedGlobal
   \<and> loadSessionFromDisk ''shell-1'' sweepDir = Some shellOne
   \<and> cleanupExpiredSessions defaultSessions sweepNow newSessionManager sweepDir
       = (2, newSessionManager, emptyDir)"
  by (simp add: cleanupExpiredSessions_def listAllSessions_def readdir_def sessionOfFile_def
      endsWith_def loadSessionFromDisk_def readFile_def getSessionPath_def shouldDelete_def
      exceeds_def daysSinceLastUse_def deleteSession_def unlink_def
      parseInt_def isWhiteSpace_def isRadixDigit_def digitValue_def radixValue_def
      defaultSessions_def sweepDir_def sweepNow_def shellOne_def
      namedGlobal_def newSessionManager_def emptyDir_def)

text \<open>
  C2, amended. On a well-formed directory with auto-cleanup enabled, the sweep removes
  exactly the entries that hold a record marked for deletion and whose removal is not
  refused, keeps every other entry as it is and in place, and returns the number
  removed. A record is marked exactly when it is of kind Shell or Named and the time
  since \<open>lastUsed\<close>, in milliseconds, exceeds the day count that \<^verbatim>\<open>parseInt\<close> reads from
  the expiry string of its kind, times 86400000; so a record of kind Global is never
  marked. With auto-cleanup disabled the sweep changes nothing and returns 0.
\<close>

theorem expiry_sweep:
  assumes "wellFormed st"
  shows "(autoCleanup config \<longrightarrow>
            fst (cleanupExpiredSessions config now mgr st)
              = length (filter (expiredEntry config now st) (files st))
            \<and> snd (snd (cleanupExpiredSessions config now mgr st))
              = st\<lparr>files := filter (\<lambda>e. \<not> expiredEntry config now st e) (files st)\<rparr>)
         \<and> (\<not> autoCleanup config \<longrightarrow> cleanupExpiredSessions config now mgr st = (0, mgr, st))
         \<and> (shouldDelete config now s \<longleftrightarrow>
               (type s = Shell \<and> (\<exists>d. parseInt (shellSessionExpiry config) = Some d
                                        \<and> d * 86400000 < now - lastUsed s))
               \<or> (type s = Named \<and> (\<exists>d. parseInt (namedSessionExpiry config) = Some d
                                          \<and> d * 86400000 < now - lastUsed s)))
         \<and> (type s = Global \<longrightarrow> \<not> shouldDelete config now s)"
proof -
  have on: "autoCleanup config \<Longrightarrow>
            fst (cleanupExpiredSessions config now mgr st)
              = length (filter (expiredEntry config now st) (files st))
            \<and> snd (snd (cleanupExpiredSessions config now mgr st))
              = st\<lparr>files := filter (\<lambda>e. \<not> expiredEntry config now st e) (files st)\<rparr>"
    using assms by (rule sweep_result)
  have off: "\<not> autoCleanup config \<Longrightarrow> cleanupExpiredSessions config now mgr st = (0, mgr, st)"
    by (simp add: cleanupExpiredSessions_def)
  have gl: "type s = Global \<Longrightarrow> \<not> shouldDelete config now s"
    by (simp add: shouldDelete_def)
  from on off gl shouldDelete_iff [of config now s] show ?thesis by blast
qed

theorem expiry_sweep_witness:
  "wellFormed keepDir
   \<and> autoCleanup defaultSessions
   \<and> fst (cleanupExpiredSessions defaultSessions sweepNow newSessionManager keepDir) = 1
   \<and> files (snd (snd (cleanupExpiredSessions defaultSessions sweepNow newSessionManager keepDir)))
       = [(''global.json'', SessionJson globalSession),
          (''work.json'', SessionJson (workSession\<lparr>lastUsed := 3455999000\<rparr>))]
   \<and> \<not> autoCleanup (defaultSessions\<lparr>autoCleanup := False\<rparr>)
   \<and> cleanupExpiredSessions (defaultSessions\<lparr>autoCleanup := False\<rparr>) sweepNow newSessionManager
        keepDir = (0, newSessionManager, keepDir)
   \<and> type shellOne = Shell
   \<and> shouldDelete defaultSessions sweepNow shellOne
   \<and> type globalSession = Global
   \<and> \<not> shouldDelete defaultSessions sweepNow globalSession"
proof -
  have w: "wellFormed keepDir"
    by (simp add: wellFormed_def consistent_def keepDir_def listable_def endsWith_def getSessionPath_def
        storedUnderOwnName_def globalSession_def shellOne_def workSession_def)
  have a: "autoCleanup defaultSessions" "\<not> autoCleanup (defaultSessions\<lparr>autoCleanup := False\<rparr>)"
    by (simp_all add: defaultSessions_def)
  have p: "parseInt (shellSessionExpiry defaultSessions) = Some 7"
    "parseInt (namedSessionExpiry defaultSessions) = Some 30"
    by (simp_all add: defaultSessions_def parseInt_def isWhiteSpace_def isRadixDigit_def
        digitValue_def radixValue_def)
  have t: "type shellOne = Shell" "type globalSession = Global"
    "type (workSession\<lparr>lastUsed := 3455999000\<rparr>) = Named"
    "lastUsed shellOne = 2851199999" "lastUsed (workSession\<lparr>lastUsed := 3455999000\<rparr>) = 3455999000"
    by (simp_all add: shellOne_def globalSession_def workSession_def)
  have e: "filter (expiredEntry defaultSessions sweepNow keepDir) (files keepDir)
             = [(''shell-1.json'', SessionJson shellOne)]"
    "filter (\<lambda>e. \<not> expiredEntry defaultSessions sweepNow keepDir e) (files keepDir)
             = [(''global.json'', SessionJson globalSession),
                (''work.json'', SessionJson (workSession\<lparr>lastUsed := 3455999000\<rparr>))]"
    using p t by (simp_all add: keepDir_def shouldDelete_iff sweepNow_def)
  have on: "fst (cleanupExpiredSessions defaultSessions sweepNow newSessionManager keepDir) = 1
   \<and> files (snd (snd (cleanupExpiredSessions defaultSessions sweepNow newSessionManager keepDir)))
       = [(''global.json'', SessionJson globalSession),
          (''work.json'', SessionJson (workSession\<lparr>lastUsed := 3455999000\<rparr>))]
   \<and> shouldDelete defaultSessions sweepNow shellOne"
    using expiry_sweep [OF w, of defaultSessions sweepNow newSessionManager shellOne] a(1) e p t
    by (simp add: sweepNow_def)
  have off: "cleanupExpiredSessions (defaultSessions\<lparr>autoCleanup := False\<rparr>) sweepNow newSessionManager
        keepDir = (0, newSessionManager, keepDir)
   \<and> \<not> shouldDelete defaultSessions sweepNow globalSession"
    using expiry_sweep [OF w, of "defaultSessions\<lparr>autoCleanup := False\<rparr>" sweepNow newSessionManager
                           globalSession]
          expiry_sweep [OF w, of defaultSessions sweepNow newSessionManager globalSession] a(2) t
    by simp
  from w a t on off show ?thesis by blast
qed

section \<open>Resolution\<close>





section \<open>Deleting and saving\<close>

text \<open>
  C5, as the claim states it, fails: when the file of a session exists and its removal
  is refused, \<^verbatim>\<open>deleteSession\<close> answers \<open>False\<close> and changes nothing, which is the answer
  it gives for a name that matches nothing. The failure does not reach the caller.
\<close>

theorem delete_swallows_storage_failure:
  "unlink (getSessionPath ''work'') lockedDir = Inl EACCES
   \<and> loadSessionFromDisk ''work'' lockedDir = Some workSession
   \<and> deleteSession ''work'' newSessionManager lockedDir = (False, newSessionManager, lockedDir)
   \<and> fst (deleteSession ''work'' newSessionManager emptyDir) = False"
  by (simp add: unlink_def getSessionPath_def lockedDir_def emptyDir_def deleteSession_def
      loadSessionFromDisk_def readFile_def)

text \<open>
  C5, amended. \<^verbatim>\<open>deleteSession\<close> returns true exactly when the file of that name exists
  and its removal is not refused; then a later load finds nothing, the file is gone from
  the directory, and the active-session pointer is cleared if it named that session. It
  returns false, with the directory and the manager unchanged, when nothing matched and
  also when the removal fails for another reason. \<^verbatim>\<open>saveSession\<close> hands a storage
  failure to its caller, and otherwise the saved record is what a later load returns.
\<close>

theorem delete_and_save_outcomes:
  "(fst (deleteSession n mgr st)
      \<longleftrightarrow> getSessionPath n \<in> set (readdir st) \<and> getSessionPath n \<notin> set (denied st))
   \<and> (fst (deleteSession n mgr st) \<longrightarrow>
        loadSessionFromDisk n (snd (snd (deleteSession n mgr st))) = None
        \<and> files (snd (snd (deleteSession n mgr st))) = AList.delete (getSessionPath n) (files st)
        \<and> activeSession (fst (snd (deleteSession n mgr st)))
            = (case activeSession mgr of
                 None \<Rightarrow> None
               | Some a \<Rightarrow> if name a = n then None else Some a))
   \<and> (\<not> fst (deleteSession n mgr st) \<longrightarrow> snd (deleteSession n mgr st) = (mgr, st))
   \<and> (saveSession s st = Inl EACCES \<longleftrightarrow> getSessionPath (name s) \<in> set (denied st))
   \<and> (getSessionPath (name s) \<notin> set (denied st) \<longrightarrow>
        (\<exists>st'. saveSession s st = Inr st' \<and> loadSessionFromDisk (name s) st' = Some s))"
proof -
  have del: "(fst (deleteSession n mgr st)
      \<longleftrightarrow> getSessionPath n \<in> set (readdir st) \<and> getSessionPath n \<notin> set (denied st))"
    by (simp add: deleteSession_def unlink_def readdir_def)
  have gone: "fst (deleteSession n mgr st) \<Longrightarrow>
        loadSessionFromDisk n (snd (snd (deleteSession n mgr st))) = None
        \<and> files (snd (snd (deleteSession n mgr st))) = AList.delete (getSessionPath n) (files st)
        \<and> activeSession (fst (snd (deleteSession n mgr st)))
            = (case activeSession mgr of
                 None \<Rightarrow> None
               | Some a \<Rightarrow> if name a = n then None else Some a)"
    by (cases "unlink (getSessionPath n) st")
       (auto simp: deleteSession_def load_after_unlink unlink_def split: option.splits if_splits)
  have kept: "\<not> fst (deleteSession n mgr st) \<Longrightarrow> snd (deleteSession n mgr st) = (mgr, st)"
    by (cases "unlink (getSessionPath n) st") (auto simp: deleteSession_def)
  have save1: "saveSession s st = Inl EACCES \<longleftrightarrow> getSessionPath (name s) \<in> set (denied st)"
    by (simp add: saveSession_def writeFile_def)
  have save2: "getSessionPath (name s) \<notin> set (denied st) \<Longrightarrow>
        (\<exists>st'. saveSession s st = Inr st' \<and> loadSessionFromDisk (name s) st' = Some s)"
    using load_after_write [of "name s" s st]
    by (simp add: saveSession_def writeFile_def)
  from del gone kept save1 save2 show ?thesis by blast
qed

theorem delete_and_save_outcomes_witness:
  "fst (deleteSession ''work'' \<lparr>activeSession = Some workSession, lastFailedQuestion = None\<rparr> workDir)
   \<and> getSessionPath ''work'' \<in> set (readdir workDir)
   \<and> getSessionPath ''work'' \<notin> set (denied workDir)
   \<and> loadSessionFromDisk ''work''
        (snd (snd (deleteSession ''work''
                     \<lparr>activeSession = Some workSession, lastFailedQuestion = None\<rparr> workDir))) = None
   \<and> activeSession
        (fst (snd (deleteSession ''work''
                     \<lparr>activeSession = Some workSession, lastFailedQuestion = None\<rparr> workDir))) = None
   \<and> \<not> fst (deleteSession ''work'' newSessionManager emptyDir)
   \<and> snd (deleteSession ''work'' newSessionManager emptyDir) = (newSessionManager, emptyDir)
   \<and> getSessionPath (name workSession) \<notin> set (denied emptyDir)
   \<and> (\<exists>st'. saveSession workSession emptyDir = Inr st'
            \<and> loadSessionFromDisk (name workSession) st' = Some workSession)"
  using delete_and_save_outcomes
          [of "''work''" "\<lparr>activeSession = Some workSession, lastFailedQuestion = None\<rparr>" workDir
              workSession]
        delete_and_save_outcomes [of "''work''" newSessionManager emptyDir workSession]
  by (simp add: workDir_def emptyDir_def workSession_def getSessionPath_def readdir_def)

section \<open>Loading and listing\<close>

text \<open>
  C6. \<^verbatim>\<open>loadSessionFromDisk\<close> answers \<open>None\<close> for a missing or unparsable file and never
  fails. The listing, however, recovers the session name from a file name by replacing
  the first occurrence of \<^verbatim>\<open>.json\<close>, not the extension: the record below, stored by
  \<^verbatim>\<open>saveSession\<close> under its own name and loadable by that name, is read back under the
  name \<^verbatim>\<open>package-help.json\<close>, found missing, and left out of the listing.
\<close>

theorem listing_misses_record:
  "readdir oddDir = [getSessionPath (name oddSession)]
   \<and> saveSession oddSession emptyDir = Inr oddDir
   \<and> loadSessionFromDisk (name oddSession) oddDir = Some oddSession
   \<and> replaceFirst ''.json'' [] (getSessionPath (name oddSession)) = ''package-help.json''
   \<and> loadSessionFromDisk ''package-help.json'' oddDir = None
   \<and> listAllSessions oddDir = []"
  by (simp add: listAllSessions_def readdir_def sessionOfFile_def endsWith_def
      loadSessionFromDisk_def readFile_def getSessionPath_def saveSession_def writeFile_def
      oddDir_def oddSession_def emptyDir_def)

section \<open>The global record\<close>




section \<open>The retry cache\<close>

text \<open>
  C8. \<^verbatim>\<open>setLastFailedQuestion\<close> overwrites whatever was remembered; \<^verbatim>\<open>getLastFailedQuestion\<close>
  returns the remembered text and leaves the manager as it was, so a second call returns
  the same text; a fresh manager remembers nothing; and when \<^verbatim>\<open>--retry\<close> is given with
  nothing remembered, \<^verbatim>\<open>main\<close> submits no request to the query engine, and, when no
  earlier command of the dispatch applies, exits with code 1 after writing
  \<^verbatim>\<open>No failed question to retry\<close>.
\<close>

theorem retry_cache:
  "fst (getLastFailedQuestion (setLastFailedQuestion q2 (setLastFailedQuestion q1 mgr))) = Some q2
   \<and> snd (getLastFailedQuestion mgr) = mgr
   \<and> fst (getLastFailedQuestion (snd (getLastFailedQuestion (setLastFailedQuestion q1 mgr)))) = Some q1
   \<and> fst (getLastFailedQuestion newSessionManager) = None
   \<and> (retry options \<and> fst (getLastFailedQuestion mgr) = None \<longrightarrow>
        requests (main options env mgr st) = []
        \<and> (\<not> helpFlag options \<and> \<not> versionFlag options
            \<and> \<not> (configShow options \<or> configReset options \<or> truthy (usePrompt options)
                   \<or> truthy (setDefaultPrompt options) \<or> truthy (allowTools options))
            \<and> \<not> (listSessions options \<or> sessionInfo options \<or> clear options
                   \<or> clearAll options \<or> truthy (exportFile options)) \<longrightarrow>
            status (main options env mgr st) = 1
            \<and> stderr (main options env mgr st) = [''No failed question to retry'']))"
proof -
  obtain c m1 s1 where sw:
    "cleanupExpiredSessions (sessionsConfig env) (sweep_at env) mgr st = (c, m1, s1)"
    by (cases "cleanupExpiredSessions (sessionsConfig env) (sweep_at env) mgr st") auto
  have lf: "lastFailedQuestion m1 = lastFailedQuestion mgr"
    using cleanupExpiredSessions_lastFailed [of "sessionsConfig env" "sweep_at env" mgr st] sw
    by simp
  have noquery: "retry options \<Longrightarrow> lastFailedQuestion mgr = None \<Longrightarrow>
     requests (main options env mgr st) = []
        \<and> (\<not> helpFlag options \<and> \<not> versionFlag options
            \<and> \<not> (configShow options \<or> configReset options \<or> truthy (usePrompt options)
                   \<or> truthy (setDefaultPrompt options) \<or> truthy (allowTools options))
            \<and> \<not> (listSessions options \<or> sessionInfo options \<or> clear options
                   \<or> clearAll options \<or> truthy (exportFile options)) \<longrightarrow>
            status (main options env mgr st) = 1
            \<and> stderr (main options env mgr st) = [''No failed question to retry''])"
    using sw lf
    by (simp add: main_def getLastFailedQuestion_def truthy_def split: prod.splits)
  show ?thesis
    using noquery
    by (simp add: getLastFailedQuestion_def setLastFailedQuestion_def newSessionManager_def)
qed

theorem retry_cache_witness:
  "retry (noOptions\<lparr>retry := True\<rparr>)
   \<and> fst (getLastFailedQuestion newSessionManager) = None
   \<and> \<not> helpFlag (noOptions\<lparr>retry := True\<rparr>)
   \<and> \<not> listSessions (noOptions\<lparr>retry := True\<rparr>)
   \<and> requests (main (noOptions\<lparr>retry := True\<rparr>) quietEnv newSessionManager emptyDir) = []
   \<and> status (main (noOptions\<lparr>retry := True\<rparr>) quietEnv newSessionManager emptyDir) = 1
   \<and> stderr (main (noOptions\<lparr>retry := True\<rparr>) quietEnv newSessionManager emptyDir)
       = [''No failed question to retry'']
   \<and> fst (getLastFailedQuestion
            (setLastFailedQuestion ''second'' (setLastFailedQuestion ''first'' newSessionManager)))
       = Some ''second''"
  using retry_cache [of "''second''" "''first''" newSessionManager "noOptions\<lparr>retry := True\<rparr>"
                        quietEnv emptyDir]
  by (simp add: noOptions_def newSessionManager_def getLastFailedQuestion_def truthy_def)

section \<open>An exchange that ends in an error\<close>

text \<open>
  C9. When a non-ephemeral exchange ends, without throwing, on a result event that
  carries the error flag, the counters of the session are advanced by that event's turn
  count, tokens and cost, \<open>lastUsed\<close> is set, the record is written under the session's
  name (the write not being refused), the question is remembered for a retry, and the
  command fails with exit code 1.
\<close>

theorem errored_result_is_recorded:
  assumes "getActiveSession (selectionOptions options env) (creation env) mgr st = Inr (s0, mgr1, st1)"
    and "\<not> noHistory options"
    and "query env (sdkRequest q options s0)
           = \<lparr>messages = pre @ [ResultMsg num_turns u True], thrown = None\<rparr>"
    and "getSessionPath (name s0) \<notin> set (denied st1)"
  shows "\<exists>s'. activeSession (fst (snd (snd (executeQuery q options env mgr st)))) = Some s'
           \<and> loadSessionFromDisk (name s0) (snd (snd (snd (executeQuery q options env mgr st))))
               = Some s'
           \<and> messageCount s'
               = messageCount (fst (foldl processMessage (s0, [], False) pre)) + num_turns
           \<and> totalTokens s'
               = totalTokens (fst (foldl processMessage (s0, [], False) pre))
                 + (case u of None \<Rightarrow> 0
                    | Some us \<Rightarrow> orZero (input_tokens us) + orZero (output_tokens us))
           \<and> totalCost s'
               = totalCost (fst (foldl processMessage (s0, [], False) pre))
                 + (case u of None \<Rightarrow> 0
                    | Some us \<Rightarrow> (of_int (orZero (input_tokens us)) / 1000) * (3 / 1000)
                                 + (of_int (orZero (output_tokens us)) / 1000) * (15 / 1000))
           \<and> lastUsed s' = touched_at env
           \<and> lastFailedQuestion (fst (snd (snd (executeQuery q options env mgr st)))) = Some q
           \<and> exitCode (fst (executeQuery q options env mgr st)) = 1
           \<and> \<not> success (fst (executeQuery q options env mgr st))"
proof -
  obtain sp tp ep where p: "foldl processMessage (s0, [], False) pre = (sp, tp, ep)"
    by (cases "foldl processMessage (s0, [], False) pre") auto
  obtain s1 where s1: "processMessage (sp, tp, ep) (ResultMsg num_turns u True) = (s1, tp, True)"
    by (simp add: processMessage_def Let_def)
  have f: "foldl processMessage (s0, [], False) (messages (query env (sdkRequest q options s0)))
             = (s1, tp, True)"
    using assms(3) p s1 by simp
  have t: "thrown (query env (sdkRequest q options s0)) = None"
    using assms(3) by simp
  let ?s' = "s1\<lparr>lastUsed := touched_at env\<rparr>"
  have x: "executeQuery q options env mgr st =
           (\<lparr>success = False, exitCode = 1, message = Some tp, error = None\<rparr>,
            [sdkRequest q options s0],
            setLastFailedQuestion q (mgr1\<lparr>activeSession := Some ?s'\<rparr>),
            st1\<lparr>files := AList.update (getSessionPath (name s0)) (SessionJson ?s') (files st1)\<rparr>)"
    using executeQuery_saved [OF assms(1,2) t f assms(4)] by simp
  have c: "messageCount s1 = messageCount sp + num_turns
           \<and> totalTokens s1 = totalTokens sp
                 + (case u of None \<Rightarrow> 0
                    | Some us \<Rightarrow> orZero (input_tokens us) + orZero (output_tokens us))
           \<and> totalCost s1 = totalCost sp
                 + (case u of None \<Rightarrow> 0
                    | Some us \<Rightarrow> (of_int (orZero (input_tokens us)) / 1000) * (3 / 1000)
                                 + (of_int (orZero (output_tokens us)) / 1000) * (15 / 1000))"
    using s1 by (auto simp: processMessage_def Let_def split: option.splits)
  show ?thesis
    apply (rule exI [of _ ?s'])
    using c by (simp add: x p setLastFailedQuestion_def load_after_update)
qed

theorem errored_result_is_recorded_witness:
  "getActiveSession (selectionOptions (noOptions\<lparr>noHistory := False\<rparr>) erroredEnv)
       (creation erroredEnv) newSessionManager globalDir
     = Inr (globalSession, newSessionManager\<lparr>activeSession := Some globalSession\<rparr>, globalDir)
   \<and> \<not> noHistory (noOptions\<lparr>noHistory := False\<rparr>)
   \<and> query erroredEnv (sdkRequest ''hi'' (noOptions\<lparr>noHistory := False\<rparr>) globalSession)
       = \<lparr>messages = [SystemInit ''sdk-9'']
                      @ [ResultMsg 2 (Some \<lparr>input_tokens = Some 10, output_tokens = Some 5\<rparr>) True],
          thrown = None\<rparr>
   \<and> getSessionPath (name globalSession) \<notin> set (denied globalDir)
   \<and> (\<exists>s'. loadSessionFromDisk ''global''
               (snd (snd (snd (executeQuery ''hi'' (noOptions\<lparr>noHistory := False\<rparr>) erroredEnv
                                  newSessionManager globalDir)))) = Some s'
            \<and> messageCount s' = 2 \<and> totalTokens s' = 15 \<and> totalCost s' = 21 / 200000
            \<and> lastUsed s' = 6000)
   \<and> lastFailedQuestion
        (fst (snd (snd (executeQuery ''hi'' (noOptions\<lparr>noHistory := False\<rparr>) erroredEnv
                          newSessionManager globalDir)))) = Some ''hi''
   \<and> exitCode (fst (executeQuery ''hi'' (noOptions\<lparr>noHistory := False\<rparr>) erroredEnv
                      newSessionManager globalDir)) = 1"
proof -
  have r: "getActiveSession (selectionOptions (noOptions\<lparr>noHistory := False\<rparr>) erroredEnv)
       (creation erroredEnv) newSessionManager globalDir
     = Inr (globalSession, newSessionManager\<lparr>activeSession := Some globalSession\<rparr>, globalDir)"
    by (simp add: selectionOptions_def getActiveSession_def getGlobalSession_def
      loadSessionFromDisk_def readFile_def getSessionPath_def orElse_def truthy_def
      noOptions_def globalDir_def)
  have n: "\<not> noHistory (noOptions\<lparr>noHistory := False\<rparr>)" by simp
  have s: "query erroredEnv (sdkRequest ''hi'' (noOptions\<lparr>noHistory := False\<rparr>) globalSession)
       = \<lparr>messages = [SystemInit ''sdk-9'']
                      @ [ResultMsg 2 (Some \<lparr>input_tokens = Some 10, output_tokens = Some 5\<rparr>) True],
          thrown = None\<rparr>"
    by (simp add: erroredEnv_def erroredQuery_def)
  have d: "getSessionPath (name globalSession) \<notin> set (denied globalDir)"
    by (simp add: globalDir_def)
  have g: "name globalSession = ''global''" "touched_at erroredEnv = 6000"
    "messageCount (fst (foldl processMessage (globalSession, [], False) [SystemInit ''sdk-9''])) = 0"
    "totalTokens (fst (foldl processMessage (globalSession, [], False) [SystemInit ''sdk-9''])) = 0"
    "totalCost (fst (foldl processMessage (globalSession, [], False) [SystemInit ''sdk-9''])) = 0"
    by (simp_all add: globalSession_def erroredEnv_def processMessage_def)
  have "(\<exists>s'. loadSessionFromDisk ''global''
               (snd (snd (snd (executeQuery ''hi'' (noOptions\<lparr>noHistory := False\<rparr>) erroredEnv
                                  newSessionManager globalDir)))) = Some s'
            \<and> messageCount s' = 2 \<and> totalTokens s' = 15 \<and> totalCost s' = 21 / 200000
            \<and> lastUsed s' = 6000)
   \<and> lastFailedQuestion
        (fst (snd (snd (executeQuery ''hi'' (noOptions\<lparr>noHistory := False\<rparr>) erroredEnv
                          newSessionManager globalDir)))) = Some ''hi''
   \<and> exitCode (fst (executeQuery ''hi'' (noOptions\<lparr>noHistory := False\<rparr>) erroredEnv
                      newSessionManager globalDir)) = 1"
    using errored_result_is_recorded [OF r n s d] g by (simp add: orZero_def) blast
  with r n s d show ?thesis by blast
qed

section \<open>Expiry strings\<close>




end
